theory Spec2Isabelle
  imports Main "HOL-Library.Sublist" "HOL-Library.Multiset"
begin

section \<open>Data model (app/models.py and the stored dictionaries of app/main.py)\<close>

text \<open>
  A \<^verbatim>\<open>datetime\<close> has microsecond resolution and is totally ordered: it is modelled as
  the integer number of microseconds. Python's \<^verbatim>\<open>int\<close> is unbounded: \<open>int\<close>.
  A Python string is a sequence of code points. It is modelled as \<open>string\<close>, one \<open>char\<close>
  per code point, so the strings of the model are the texts whose code points are below
  256 (ASCII and the Latin-1 letters).
\<close>

type_synonym datetime = int

text \<open>
  The dictionaries stored in \<^verbatim>\<open>fake_users_db\<close>: keys \<^verbatim>\<open>id\<close>, \<^verbatim>\<open>username\<close>, \<^verbatim>\<open>email\<close>,
  \<^verbatim>\<open>is_active\<close>, \<^verbatim>\<open>created_at\<close>. There is no password key.
\<close>

record user =
  id :: int
  username :: string
  email :: string
  is_active :: bool
  created_at :: datetime

text \<open>The dictionaries appended to \<^verbatim>\<open>fake_messages_db\<close>.\<close>

record message =
  msg_id :: int
  user_id :: int
  content :: string
  msg_created_at :: datetime

text \<open>\<^verbatim>\<open>class UserCreate(UserBase)\<close>: a validated body of POST and PUT.\<close>

record UserCreate =
  uc_username :: string
  uc_email :: string
  uc_password :: string

text \<open>\<^verbatim>\<open>class UserUpdate(BaseModel)\<close>: every field is \<^verbatim>\<open>Optional\<close> with default \<^verbatim>\<open>None\<close>.\<close>

record UserUpdate =
  uu_username :: "string option"
  uu_email :: "string option"
  uu_is_active :: "bool option"

text \<open>\<^verbatim>\<open>class MessageCreate(BaseModel)\<close>.\<close>

record MessageCreate =
  mc_content :: string

text \<open>
  The errors a request can end in. \<open>NotFoundError\<close> is the \<^verbatim>\<open>HTTPException\<close> with
  \<^verbatim>\<open>HTTP_404_NOT_FOUND\<close>, \<open>ConflictError\<close> the one with \<^verbatim>\<open>HTTP_400_BAD_REQUEST\<close> that
  \<^verbatim>\<open>create_user\<close> raises for a duplicate email, \<open>ValidationError\<close> the rejection of a body
  by the declared field constraints.
\<close>

datatype error = NotFoundError | ConflictError | ValidationError

subsection \<open>Python dictionaries\<close>

text \<open>
  A \<^verbatim>\<open>dict\<close> iterates in insertion order, so it is an association list with distinct keys,
  oldest entry first. Assigning to a present key keeps the entry's position, assigning to
  a new key appends, \<^verbatim>\<open>del\<close> removes the entry.
\<close>

type_synonym 'v pydict = "(int \<times> 'v) list"

definition dict_keys :: "'v pydict \<Rightarrow> int list" where
  "dict_keys d = map fst d"

definition dict_values :: "'v pydict \<Rightarrow> 'v list" where
  "dict_values d = map snd d"

definition dict_contains :: "int \<Rightarrow> 'v pydict \<Rightarrow> bool" where
  "dict_contains k d = (map_of d k \<noteq> None)"

fun dict_set :: "int \<Rightarrow> 'v \<Rightarrow> 'v pydict \<Rightarrow> 'v pydict" where
  "dict_set k v [] = [(k, v)]"
| "dict_set k v (p # ps) = (if fst p = k then (k, v) # ps else p # dict_set k v ps)"

definition dict_del :: "int \<Rightarrow> 'v pydict \<Rightarrow> 'v pydict" where
  "dict_del k d = filter (\<lambda>p. fst p \<noteq> k) d"

subsection \<open>The module's global state\<close>

record store =
  fake_users_db :: "user pydict"
  fake_messages_db :: "message list"
  user_id_counter :: int
  message_id_counter :: int

text \<open>
  The state after the module is loaded. The two seed users' \<^verbatim>\<open>created_at\<close> are the values
  of two calls of \<^verbatim>\<open>datetime.now()\<close>, taken as parameters.
\<close>

definition seed_store :: "datetime \<Rightarrow> datetime \<Rightarrow> store" where
  "seed_store t1 t2 =
     \<lparr> fake_users_db =
         [(1, \<lparr> id = 1, username = ''vasya'', email = ''vasya@example.com'',
                is_active = True, created_at = t1 \<rparr>),
          (2, \<lparr> id = 2, username = ''katya'', email = ''katya@example.com'',
                is_active = True, created_at = t2 \<rparr>)],
       fake_messages_db = [],
       user_id_counter = 3,
       message_id_counter = 1 \<rparr>"

text \<open>
  The invariant of the state: no key twice in the dictionary, every user stored under its
  own id, no message id twice, and every id in use below its counter.
\<close>

definition store_inv :: "store \<Rightarrow> bool" where
  "store_inv s =
     (distinct (dict_keys (fake_users_db s)) \<and>
      list_all (\<lambda>(k, u). id u = k \<and> k < user_id_counter s) (fake_users_db s) \<and>
      distinct (map msg_id (fake_messages_db s)) \<and>
      list_all (\<lambda>m. msg_id m < message_id_counter s) (fake_messages_db s))"

section \<open>Request handlers (app/main.py)\<close>

text \<open>
  Every handler takes the state and returns its response, or the error it raises, with the
  state it leaves. The value of \<^verbatim>\<open>datetime.now()\<close> is the parameter \<open>now\<close>.
\<close>

text \<open>
  \<^verbatim>\<open>create_user\<close>: the loop over \<^verbatim>\<open>fake_users_db.values()\<close> raises at the first stored user
  whose email equals the new one.
\<close>

fun email_exists :: "user list \<Rightarrow> string \<Rightarrow> bool" where
  "email_exists [] e = False"
| "email_exists (existing_user # rest) e =
     (if email existing_user = e then True else email_exists rest e)"

definition create_user :: "store \<Rightarrow> UserCreate \<Rightarrow> datetime \<Rightarrow> (error + user) \<times> store" where
  "create_user s u now =
     (if email_exists (dict_values (fake_users_db s)) (uc_email u) then (Inl ConflictError, s)
      else
        let new_user = \<lparr> id = user_id_counter s, username = uc_username u,
                         email = uc_email u, is_active = True, created_at = now \<rparr>
        in (Inr new_user,
            s\<lparr> fake_users_db := dict_set (user_id_counter s) new_user (fake_users_db s),
               user_id_counter := user_id_counter s + 1 \<rparr>))"

text \<open>
  \<^verbatim>\<open>get_user_by_id\<close>, \<^verbatim>\<open>get_user_by_username\<close> and \<^verbatim>\<open>delete_user\<close>.
\<close>

definition get_user_by_id :: "store \<Rightarrow> int \<Rightarrow> error + user" where
  "get_user_by_id s uid =
     (case map_of (fake_users_db s) uid of
        None \<Rightarrow> Inl NotFoundError
      | Some u \<Rightarrow> Inr u)"

fun find_username :: "user list \<Rightarrow> string \<Rightarrow> error + user" where
  "find_username [] name = Inl NotFoundError"
| "find_username (u # rest) name = (if username u = name then Inr u else find_username rest name)"

definition get_user_by_username :: "store \<Rightarrow> string \<Rightarrow> error + user" where
  "get_user_by_username s name = find_username (dict_values (fake_users_db s)) name"

definition delete_user :: "store \<Rightarrow> int \<Rightarrow> (error + unit) \<times> store" where
  "delete_user s uid =
     (if \<not> dict_contains uid (fake_users_db s) then (Inl NotFoundError, s)
      else (Inr (), s\<lparr> fake_users_db := dict_del uid (fake_users_db s) \<rparr>))"

text \<open>\<^verbatim>\<open>create_message_for_user\<close>.\<close>

definition create_message_for_user ::
  "store \<Rightarrow> int \<Rightarrow> MessageCreate \<Rightarrow> datetime \<Rightarrow> (error + message) \<times> store" where
  "create_message_for_user s uid m now =
     (if \<not> dict_contains uid (fake_users_db s) then (Inl NotFoundError, s)
      else
        let new_message = \<lparr> msg_id = message_id_counter s, user_id = uid,
                            content = mc_content m, msg_created_at = now \<rparr>
        in (Inr new_message,
            s\<lparr> fake_messages_db := fake_messages_db s @ [new_message],
               message_id_counter := message_id_counter s + 1 \<rparr>))"

text \<open>
  \<^verbatim>\<open>update_user_full\<close> (PUT) assigns two keys of the stored dictionary in place, so the
  entry keeps its position in \<^verbatim>\<open>fake_users_db\<close>. The password of the body is not read.
\<close>

definition update_user_full :: "store \<Rightarrow> int \<Rightarrow> UserCreate \<Rightarrow> (error + user) \<times> store" where
  "update_user_full s uid user_update =
     (case map_of (fake_users_db s) uid of
        None \<Rightarrow> (Inl NotFoundError, s)
      | Some u \<Rightarrow>
          let u1 = u\<lparr> username := uc_username user_update \<rparr>;
              u2 = u1\<lparr> email := uc_email user_update \<rparr>
          in (Inr u2, s\<lparr> fake_users_db := dict_set uid u2 (fake_users_db s) \<rparr>))"

text \<open>
  \<^verbatim>\<open>update_user_partial\<close> (PATCH): \<^verbatim>\<open>user_data\<close> is the stored dictionary itself, and each
  of the three assignments runs when the field of the body \<^verbatim>\<open>is not None\<close>.
\<close>

definition update_user_partial :: "store \<Rightarrow> int \<Rightarrow> UserUpdate \<Rightarrow> (error + user) \<times> store" where
  "update_user_partial s uid user_update =
     (case map_of (fake_users_db s) uid of
        None \<Rightarrow> (Inl NotFoundError, s)
      | Some user_data \<Rightarrow>
          let d1 = (case uu_username user_update of
                      None \<Rightarrow> user_data | Some n \<Rightarrow> user_data\<lparr> username := n \<rparr>);
              d2 = (case uu_email user_update of
                      None \<Rightarrow> d1 | Some e \<Rightarrow> d1\<lparr> email := e \<rparr>);
              d3 = (case uu_is_active user_update of
                      None \<Rightarrow> d2 | Some a \<Rightarrow> d2\<lparr> is_active := a \<rparr>)
          in (Inr d3, s\<lparr> fake_users_db := dict_set uid d3 (fake_users_db s) \<rparr>))"

section \<open>Query handlers (app/main.py)\<close>

subsection \<open>Python primitives the handlers use\<close>








text \<open>
  \<^verbatim>\<open>xs[start:stop]\<close> with step 1. A negative index counts from the end, every index is
  clamped to the list, and an empty range gives the empty list.
\<close>

definition slice_index :: "nat \<Rightarrow> int \<Rightarrow> nat" where
  "slice_index n i = nat (if i < 0 then max (int n + i) 0 else min i (int n))"

definition py_slice :: "'a list \<Rightarrow> int option \<Rightarrow> int option \<Rightarrow> 'a list" where
  "py_slice xs start stop =
     (let lo = (case start of None \<Rightarrow> 0 | Some i \<Rightarrow> slice_index (length xs) i);
          hi = (case stop of None \<Rightarrow> length xs | Some j \<Rightarrow> slice_index (length xs) j)
      in take (hi - lo) (drop lo xs))"

text \<open>
  \<^verbatim>\<open>list.sort(key=..., reverse=...)\<close> is a stable sort, and \<^verbatim>\<open>reverse=True\<close> keeps the
  stability: the list is reversed, sorted and reversed again. A stable sort has one
  result, which insertion sort (\<open>sort_key\<close>) computes.
\<close>

definition py_sort :: "('a \<Rightarrow> int) \<Rightarrow> bool \<Rightarrow> 'a list \<Rightarrow> 'a list" where
  "py_sort key reverse xs = (if reverse then rev (sort_key key (rev xs)) else sort_key key xs)"

text \<open>A query parameter with a default: \<open>None\<close> when the request does not give it.\<close>

fun query_default :: "'a \<Rightarrow> 'a option \<Rightarrow> 'a" where
  "query_default d None = d"
| "query_default d (Some v) = v"

subsection \<open>\<^verbatim>\<open>get_users\<close>\<close>


subsection \<open>\<^verbatim>\<open>get_messages\<close>\<close>

text \<open>
  \<^verbatim>\<open>messages.sort(...)\<close> sorts the list object in place, and \<^verbatim>\<open>fake_messages_db.copy()\<close>
  and the list comprehension make new list objects. What the handler does to the stored
  list depends on which object is sorted, so the handler is modelled on a heap of list
  objects: an address is an index into the heap. \<^verbatim>\<open>if user_id:\<close> is false for \<^verbatim>\<open>None\<close>
  and for 0.
\<close>

type_synonym addr = nat
type_synonym heap = "message list list"

definition alloc :: "message list \<Rightarrow> heap \<Rightarrow> addr \<times> heap" where
  "alloc xs h = (length h, h @ [xs])"

definition list_copy :: "addr \<Rightarrow> heap \<Rightarrow> addr \<times> heap" where
  "list_copy a h = alloc (h ! a) h"

definition list_sort :: "addr \<Rightarrow> (message \<Rightarrow> int) \<Rightarrow> bool \<Rightarrow> heap \<Rightarrow> heap" where
  "list_sort a key reverse h = h[a := py_sort key reverse (h ! a)]"

definition get_messages_heap ::
  "addr \<Rightarrow> heap \<Rightarrow> int option \<Rightarrow> int option \<Rightarrow> string option \<Rightarrow> message list \<times> heap" where
  "get_messages_heap db h user_id_q limit_q sort_q =
     (let limit = query_default 20 limit_q;
          sort_by_date = query_default ''desc'' sort_q;
          (messages, h1) = list_copy db h;
          (messages, h2) =
            (case user_id_q of
               None \<Rightarrow> (messages, h1)
             | Some uid \<Rightarrow>
                 if uid \<noteq> 0
                 then alloc (filter (\<lambda>m. user_id m = uid) (h1 ! messages)) h1
                 else (messages, h1));
          h3 = (if sort_by_date = ''desc''
                then list_sort messages msg_created_at True h2
                else list_sort messages msg_created_at False h2)
      in (py_slice (h3 ! messages) None (Some limit), h3))"

text \<open>
  The handler on the module's state: \<^verbatim>\<open>fake_messages_db\<close> is the only list object before
  the call, and the state after the call holds what that object holds then.
\<close>

definition get_messages ::
  "store \<Rightarrow> int option \<Rightarrow> int option \<Rightarrow> string option \<Rightarrow> message list \<times> store" where
  "get_messages s user_id_q limit_q sort_q =
     (let (r, h) = get_messages_heap 0 [fake_messages_db s] user_id_q limit_q sort_q
      in (r, s\<lparr> fake_messages_db := h ! 0 \<rparr>))"

subsection \<open>\<^verbatim>\<open>search_users\<close>\<close>



section \<open>Sequences of requests\<close>

text \<open>
  One constructor for each endpoint of the application, with the arguments its handler
  receives and, for the two that create an entity, the value of \<^verbatim>\<open>datetime.now()\<close>.
\<close>

datatype request =
    Root
  | Info
  | GetUserById int
  | GetUserByUsername string
  | DeleteUser int
  | GetUsers "int option" "int option" "bool option" "string option"
  | GetMessages "int option" "int option" "string option"
  | CreateUser UserCreate datetime
  | CreateMessage int MessageCreate datetime
  | UpdateUserFull int UserCreate
  | UpdateUserPartial int UserUpdate
  | SearchUsers string "int option" "bool option"

text \<open>The state a request leaves. The handlers that only read leave it as it is.\<close>

fun exec :: "request \<Rightarrow> store \<Rightarrow> store" where
  "exec (DeleteUser uid) s = snd (delete_user s uid)"
| "exec (GetMessages u l srt) s = snd (get_messages s u l srt)"
| "exec (CreateUser u now) s = snd (create_user s u now)"
| "exec (CreateMessage uid m now) s = snd (create_message_for_user s uid m now)"
| "exec (UpdateUserFull uid u) s = snd (update_user_full s uid u)"
| "exec (UpdateUserPartial uid u) s = snd (update_user_partial s uid u)"
| "exec _ s = s"

fun run :: "store \<Rightarrow> request list \<Rightarrow> store" where
  "run s [] = s"
| "run s (r # rs) = run (exec r s) rs"

text \<open>The id a request assigns to a new user, and to a new message, if it creates one.\<close>

fun new_user_id :: "request \<Rightarrow> store \<Rightarrow> int list" where
  "new_user_id (CreateUser u now) s =
     (case fst (create_user s u now) of Inl err \<Rightarrow> [] | Inr new_user \<Rightarrow> [id new_user])"
| "new_user_id _ s = []"

fun new_message_id :: "request \<Rightarrow> store \<Rightarrow> int list" where
  "new_message_id (CreateMessage uid m now) s =
     (case fst (create_message_for_user s uid m now) of
        Inl err \<Rightarrow> []
      | Inr new_message \<Rightarrow> [msg_id new_message])"
| "new_message_id _ s = []"

text \<open>The ids assigned during a run, in the order of assignment.\<close>

fun user_ids_assigned :: "store \<Rightarrow> request list \<Rightarrow> int list" where
  "user_ids_assigned s [] = []"
| "user_ids_assigned s (r # rs) = new_user_id r s @ user_ids_assigned (exec r s) rs"

fun message_ids_assigned :: "store \<Rightarrow> request list \<Rightarrow> int list" where
  "message_ids_assigned s [] = []"
| "message_ids_assigned s (r # rs) = new_message_id r s @ message_ids_assigned (exec r s) rs"

section \<open>Validation of request bodies (app/models.py)\<close>

text \<open>
  A JSON body before validation: each key is absent (or null), \<open>None\<close>, or holds a string.
  \<^verbatim>\<open>Field(...)\<close> makes a key required, \<^verbatim>\<open>min_length\<close> and \<^verbatim>\<open>max_length\<close> bound the length
  of the string. \<^verbatim>\<open>email\<close> is declared with \<^verbatim>\<open>Field(..., description=...)\<close> only.
\<close>

record UserCreate_body =
  body_username :: "string option"
  body_email :: "string option"
  body_password :: "string option"

definition validate_password :: "string \<Rightarrow> error + string" where
  "validate_password v = (if length v < 6 then Inl ValidationError else Inr v)"

definition validate_UserCreate :: "UserCreate_body \<Rightarrow> error + UserCreate" where
  "validate_UserCreate b =
     (case body_username b of
        None \<Rightarrow> Inl ValidationError
      | Some n \<Rightarrow>
          if length n < 3 \<or> 50 < length n then Inl ValidationError
          else (case body_email b of
             None \<Rightarrow> Inl ValidationError
           | Some e \<Rightarrow>
               (case body_password b of
                  None \<Rightarrow> Inl ValidationError
                | Some p \<Rightarrow>
                    if length p < 6 then Inl ValidationError
                    else (case validate_password p of
                            Inl err \<Rightarrow> Inl err
                          | Inr p' \<Rightarrow>
                              Inr \<lparr> uc_username = n, uc_email = e, uc_password = p' \<rparr>))))"

text \<open>The POST endpoint: the body is validated, then the handler runs.\<close>

definition post_users :: "store \<Rightarrow> UserCreate_body \<Rightarrow> datetime \<Rightarrow> (error + user) \<times> store" where
  "post_users s b now =
     (case validate_UserCreate b of
        Inl err \<Rightarrow> (Inl err, s)
      | Inr u \<Rightarrow> create_user s u now)"

section \<open>Concrete states\<close>

text \<open>The seed state after PATCH of user 1 with the body \<^verbatim>\<open>{"is_active": false}\<close>.\<close>

definition vasya_inactive_store :: store where
  "vasya_inactive_store =
     snd (update_user_partial (seed_store 0 0) 1
            \<lparr> uu_username = None, uu_email = None, uu_is_active = Some False \<rparr>)"



text \<open>The seed state after three messages are created: two for user 1, one for user 2.\<close>

definition three_messages_store :: store where
  "three_messages_store =
     run (seed_store 0 0)
       [CreateMessage 1 \<lparr> mc_content = ''a'' \<rparr> 5,
        CreateMessage 2 \<lparr> mc_content = ''b'' \<rparr> 9,
        CreateMessage 1 \<lparr> mc_content = ''c'' \<rparr> 9]"

section \<open>Properties\<close>

lemma email_exists_iff: "email_exists us e \<longleftrightarrow> e \<in> set (map email us)"
  by (induction us) auto

text \<open>
  C1. A create-user request whose email equals, character for character, the email of a
  stored user is rejected with the conflict error and leaves the store as it was (the same
  entries, hence the same size); a request whose email equals no stored user's email is
  not rejected with the conflict error.
\<close>

theorem create_user_conflict:
  "(uc_email u \<in> set (map email (dict_values (fake_users_db s))) \<longrightarrow>
      create_user s u now = (Inl ConflictError, s)) \<and>
   (uc_email u \<notin> set (map email (dict_values (fake_users_db s))) \<longrightarrow>
      fst (create_user s u now) \<noteq> Inl ConflictError)"
  by (simp add: create_user_def email_exists_iff Let_def)

theorem create_user_conflict_witness:
  "uc_email \<lparr> uc_username = ''vasya2'', uc_email = ''vasya@example.com'', uc_password = ''secret1'' \<rparr>
     \<in> set (map email (dict_values (fake_users_db (seed_store 0 0)))) \<and>
   create_user (seed_store 0 0)
     \<lparr> uc_username = ''vasya2'', uc_email = ''vasya@example.com'', uc_password = ''secret1'' \<rparr> 5
     = (Inl ConflictError, seed_store 0 0) \<and>
   uc_email \<lparr> uc_username = ''vasya2'', uc_email = ''Vasya@example.com'', uc_password = ''secret1'' \<rparr>
     \<notin> set (map email (dict_values (fake_users_db (seed_store 0 0)))) \<and>
   fst (create_user (seed_store 0 0)
     \<lparr> uc_username = ''vasya2'', uc_email = ''Vasya@example.com'', uc_password = ''secret1'' \<rparr> 5)
     \<noteq> Inl ConflictError"
  using create_user_conflict
    [of "\<lparr> uc_username = ''vasya2'', uc_email = ''vasya@example.com'', uc_password = ''secret1'' \<rparr>"
        "seed_store 0 0" 5]
    create_user_conflict
    [of "\<lparr> uc_username = ''vasya2'', uc_email = ''Vasya@example.com'', uc_password = ''secret1'' \<rparr>"
        "seed_store 0 0" 5]
  by (simp add: seed_store_def dict_values_def)

text \<open>
  C2. The uniqueness check of \<^verbatim>\<open>create_user\<close> reads the email of every stored user and
  never \<^verbatim>\<open>is_active\<close>. In the seed state with user 1 made inactive, the only user with the
  email of user 1 is inactive, and a create-user request with that email is rejected.
\<close>

theorem create_user_inactive_conflict_counterexample:
  "map (\<lambda>u. (email u, is_active u)) (dict_values (fake_users_db vasya_inactive_store)) =
     [(''vasya@example.com'', False), (''katya@example.com'', True)] \<and>
   fst (create_user vasya_inactive_store
     \<lparr> uc_username = ''vasya2'', uc_email = ''vasya@example.com'', uc_password = ''secret1'' \<rparr> 7)
     = Inl ConflictError"
  by (simp add: vasya_inactive_store_def update_user_partial_def seed_store_def
      create_user_def dict_values_def Let_def)

text \<open>
  C2, as the code has it. Email uniqueness at creation considers every stored entry: when
  the store holds an inactive user with email \<open>e\<close>, a create-user request with email \<open>e\<close> is
  rejected with the conflict error and the store is unchanged.
\<close>

theorem create_user_inactive_conflict:
  assumes "u \<in> set (dict_values (fake_users_db s))"
    and "\<not> is_active u"
    and "email u = uc_email p"
  shows "create_user s p now = (Inl ConflictError, s)"
proof -
  have "email u \<in> set (map email (dict_values (fake_users_db s)))"
    using assms(1) by simp
  then have "email_exists (dict_values (fake_users_db s)) (uc_email p)"
    using assms(3) by (simp add: email_exists_iff)
  then show ?thesis
    by (simp add: create_user_def)
qed

theorem create_user_inactive_conflict_witness:
  "\<lparr> id = 1, username = ''vasya'', email = ''vasya@example.com'', is_active = False,
      created_at = 0 \<rparr> \<in> set (dict_values (fake_users_db vasya_inactive_store)) \<and>
   create_user vasya_inactive_store
     \<lparr> uc_username = ''vasya2'', uc_email = ''vasya@example.com'', uc_password = ''secret1'' \<rparr> 7
     = (Inl ConflictError, vasya_inactive_store)"
proof -
  have m: "\<lparr> id = 1, username = ''vasya'', email = ''vasya@example.com'', is_active = False,
      created_at = 0 \<rparr> \<in> set (dict_values (fake_users_db vasya_inactive_store))"
    by (simp add: vasya_inactive_store_def update_user_partial_def seed_store_def
        dict_values_def Let_def)
  show ?thesis
    using m create_user_inactive_conflict [OF m, of
        "\<lparr> uc_username = ''vasya2'', uc_email = ''vasya@example.com'', uc_password = ''secret1'' \<rparr>" 7]
    by simp
qed

text \<open>
  C3. The body with a valid username and password and the empty string as email passes
  validation: \<^verbatim>\<open>email\<close> is declared without \<^verbatim>\<open>min_length\<close>.
\<close>

theorem validate_empty_email_counterexample:
  "validate_UserCreate
     \<lparr> body_username = Some ''abc'', body_email = Some '''', body_password = Some ''secret'' \<rparr>
   = Inr \<lparr> uc_username = ''abc'', uc_email = '''', uc_password = ''secret'' \<rparr>"
  by (simp add: validate_UserCreate_def validate_password_def)

text \<open>
  C3, as the code has it. Email at creation is required and its content is not
  constrained: a body without email is rejected with a validation error, and a body with
  any email string, the empty one included, a username of 3 to 50 characters and a
  password of at least 6 is accepted as it is.
\<close>

theorem validate_email_required:
  "(body_email b = None \<longrightarrow> validate_UserCreate b = Inl ValidationError) \<and>
   (body_email b = Some e \<and> body_username b = Some n \<and> body_password b = Some p \<and>
    3 \<le> length n \<and> length n \<le> 50 \<and> 6 \<le> length p \<longrightarrow>
      validate_UserCreate b = Inr \<lparr> uc_username = n, uc_email = e, uc_password = p \<rparr>)"
  by (auto simp add: validate_UserCreate_def validate_password_def split: option.splits)

theorem validate_email_required_witness:
  "validate_UserCreate
     \<lparr> body_username = Some ''abc'', body_email = None, body_password = Some ''secret'' \<rparr>
     = Inl ValidationError \<and>
   validate_UserCreate
     \<lparr> body_username = Some ''abc'', body_email = Some '''', body_password = Some ''secret'' \<rparr>
     = Inr \<lparr> uc_username = ''abc'', uc_email = '''', uc_password = ''secret'' \<rparr>"
  using validate_email_required
      [of "\<lparr> body_username = Some ''abc'', body_email = None, body_password = Some ''secret'' \<rparr>"]
    validate_email_required
      [of "\<lparr> body_username = Some ''abc'', body_email = Some '''', body_password = Some ''secret'' \<rparr>"
          "''''" "''abc''" "''secret''"]
  by simp

subsection \<open>Slices\<close>



lemma py_slice_prefix: "0 \<le> b \<Longrightarrow> py_slice xs None (Some b) = take (nat b) xs"
  by (simp add: py_slice_def slice_index_def min_def nat_le_iff)



subsection \<open>Matching without regard to case\<close>







subsection \<open>Sorting\<close>

lemma mset_py_sort: "mset (py_sort key reverse xs) = mset xs"
  by (simp add: py_sort_def)

lemma sorted_py_sort_asc:
  "sorted_wrt (\<lambda>a b. key a \<le> key b) (py_sort key False xs)"
  using sorted_sort_key [of key xs] by (simp add: py_sort_def sorted_map)

lemma sorted_py_sort_desc:
  "sorted_wrt (\<lambda>a b. key b \<le> key a) (py_sort key True xs)"
  using sorted_sort_key [of key "rev xs"] by (simp add: py_sort_def sorted_map sorted_wrt_rev)

lemma sorted_py_sort:
  "sorted_wrt (\<lambda>a b. if reverse then key b \<le> key a else key a \<le> key b)
     (py_sort key reverse xs)"
  using sorted_py_sort_asc [of key xs] sorted_py_sort_desc [of key xs]
  by (cases reverse) simp_all

text \<open>Equal keys keep the order they had in the list, whichever the direction.\<close>

lemma py_sort_stable:
  "filter (\<lambda>m. key m = k) (py_sort key reverse xs) = filter (\<lambda>m. key m = k) xs"
  by (simp add: py_sort_def sort_key_stable rev_filter [symmetric])

subsection \<open>The list objects of \<^verbatim>\<open>get_messages\<close>\<close>

lemma get_messages_heap_result:
  assumes "db < length h"
  shows "fst (get_messages_heap db h user_id_q limit_q sort_q) =
     py_slice
       (py_sort msg_created_at (query_default ''desc'' sort_q = ''desc'')
          (case user_id_q of
             None \<Rightarrow> h ! db
           | Some uid \<Rightarrow> if uid \<noteq> 0 then filter (\<lambda>m. user_id m = uid) (h ! db) else h ! db))
       None (Some (query_default 20 limit_q))"
  using assms
  by (cases user_id_q)
    (simp_all add: get_messages_heap_def list_copy_def alloc_def list_sort_def Let_def
      nth_append)

lemma get_messages_heap_frame:
  assumes "db < length h" and "a < length h"
  shows "snd (get_messages_heap db h user_id_q limit_q sort_q) ! a = h ! a"
  using assms
  by (cases user_id_q)
    (simp_all add: get_messages_heap_def list_copy_def alloc_def list_sort_def Let_def
      nth_append)

text \<open>
  C5. For a \<open>user_id\<close> filter of at least 1, or none, and a \<open>limit\<close> in 1..100, or none
  (then 20), \<^verbatim>\<open>get_messages\<close> returns the first \<open>limit\<close> elements of a list that holds
  exactly the stored messages with that \<open>user_id\<close> (all of them without a filter) and is
  ordered by \<^verbatim>\<open>created_at\<close>, descending when \<open>sort_by_date\<close> is absent or \<^verbatim>\<open>desc\<close>, ascending
  otherwise. The state, the stored list of messages included, is as it was.
\<close>

theorem get_messages_listing:
  assumes "case user_id_q of None \<Rightarrow> True | Some uid \<Rightarrow> 1 \<le> uid"
    and "case limit_q of None \<Rightarrow> True | Some l \<Rightarrow> 1 \<le> l \<and> l \<le> 100"
  shows
    "(let kept = filter (\<lambda>m. case user_id_q of None \<Rightarrow> True | Some uid \<Rightarrow> user_id m = uid)
                   (fake_messages_db s);
          descending = (sort_q = None \<or> sort_q = Some ''desc'');
          ordered = py_sort msg_created_at descending kept
      in fst (get_messages s user_id_q limit_q sort_q) =
           take (nat (query_default 20 limit_q)) ordered \<and>
         mset ordered = mset kept \<and>
         sorted_wrt (\<lambda>a b. if descending then msg_created_at b \<le> msg_created_at a
                            else msg_created_at a \<le> msg_created_at b) ordered \<and>
         snd (get_messages s user_id_q limit_q sort_q) = s)"
proof -
  have frame: "snd (get_messages_heap 0 [fake_messages_db s] user_id_q limit_q sort_q) ! 0
      = fake_messages_db s"
    using get_messages_heap_frame [of 0 "[fake_messages_db s]" 0] by simp
  have unchanged: "snd (get_messages s user_id_q limit_q sort_q) = s"
    by (simp add: get_messages_def split_beta frame)
  have lim: "0 \<le> query_default 20 limit_q"
    using assms(2) by (cases limit_q) simp_all
  have desc: "(query_default ''desc'' sort_q = ''desc'') = (sort_q = None \<or> sort_q = Some ''desc'')"
    by (cases sort_q) simp_all
  have result: "fst (get_messages s user_id_q limit_q sort_q) =
      take (nat (query_default 20 limit_q))
        (py_sort msg_created_at (sort_q = None \<or> sort_q = Some ''desc'')
           (filter (\<lambda>m. case user_id_q of None \<Rightarrow> True | Some uid \<Rightarrow> user_id m = uid)
                   (fake_messages_db s)))"
    using get_messages_heap_result [of 0 "[fake_messages_db s]" user_id_q limit_q sort_q]
      assms(1)
    by (cases user_id_q)
      (simp_all add: get_messages_def split_beta py_slice_prefix [OF lim] desc)
  show ?thesis
    unfolding Let_def
    using result unchanged mset_py_sort sorted_py_sort by blast
qed

theorem get_messages_listing_witness:
  "map msg_id (fst (get_messages three_messages_store (Some 1) (Some 2) None)) = [3, 1] \<and>
   snd (get_messages three_messages_store (Some 1) (Some 2) None) = three_messages_store"
proof -
  have r: "map msg_id (take 2 (py_sort msg_created_at True
             (filter (\<lambda>m. user_id m = 1) (fake_messages_db three_messages_store)))) = [3, 1]"
    by code_simp
  from get_messages_listing [of "Some 1" "Some 2" three_messages_store None] r
  show ?thesis
    by (simp add: Let_def)
qed

subsection \<open>Search\<close>




subsection \<open>Updates\<close>

lemma map_of_dict_set: "map_of (dict_set k v d) = (map_of d)(k \<mapsto> v)"
  by (induction d) (auto simp add: fun_eq_iff)

lemma dict_keys_dict_set:
  "map_of d k = Some u \<Longrightarrow> dict_keys (dict_set k v d) = dict_keys d"
  by (induction d) (auto simp add: dict_keys_def split: if_splits)

text \<open>
  C7. For a user id present in the store, \<^verbatim>\<open>update_user_partial\<close> succeeds and returns the
  stored user with \<^verbatim>\<open>username\<close>, \<^verbatim>\<open>email\<close> and \<^verbatim>\<open>is_active\<close> replaced where the body gives
  them and kept where it omits them; \<^verbatim>\<open>id\<close> and \<^verbatim>\<open>created_at\<close> are kept. The store maps the id
  to that user and is otherwise as it was: the same keys in the same order, the other
  users, the messages and both counters. The body \<^verbatim>\<open>{"is_active": false}\<close> gives the stored
  user with \<^verbatim>\<open>is_active\<close> false and nothing else changed.
\<close>

theorem update_user_partial_frame:
  assumes "map_of (fake_users_db s) uid = Some u"
  shows
    "(let u' = u\<lparr> username := (case uu_username p of None \<Rightarrow> username u | Some n \<Rightarrow> n),
                  email := (case uu_email p of None \<Rightarrow> email u | Some e \<Rightarrow> e),
                  is_active := (case uu_is_active p of None \<Rightarrow> is_active u | Some a \<Rightarrow> a) \<rparr>;
          s' = snd (update_user_partial s uid p)
      in fst (update_user_partial s uid p) = Inr u' \<and>
         id u' = id u \<and> created_at u' = created_at u \<and>
         map_of (fake_users_db s') = (map_of (fake_users_db s))(uid \<mapsto> u') \<and>
         dict_keys (fake_users_db s') = dict_keys (fake_users_db s) \<and>
         fake_messages_db s' = fake_messages_db s \<and>
         user_id_counter s' = user_id_counter s \<and>
         message_id_counter s' = message_id_counter s) \<and>
     fst (update_user_partial s uid
            \<lparr> uu_username = None, uu_email = None, uu_is_active = Some False \<rparr>) =
       Inr \<lparr> id = id u, username = username u, email = email u, is_active = False,
             created_at = created_at u \<rparr>"
  using assms
  by (cases "uu_username p"; cases "uu_email p"; cases "uu_is_active p")
    (simp_all add: update_user_partial_def Let_def map_of_dict_set dict_keys_dict_set)

theorem update_user_partial_frame_witness:
  "map_of (fake_users_db (seed_store 0 0)) 1 =
     Some \<lparr> id = 1, username = ''vasya'', email = ''vasya@example.com'', is_active = True,
            created_at = 0 \<rparr> \<and>
   fst (update_user_partial (seed_store 0 0) 1
          \<lparr> uu_username = None, uu_email = None, uu_is_active = Some False \<rparr>) =
     Inr \<lparr> id = 1, username = ''vasya'', email = ''vasya@example.com'', is_active = False,
           created_at = 0 \<rparr>"
proof -
  have h: "map_of (fake_users_db (seed_store 0 0)) 1 =
     Some \<lparr> id = 1, username = ''vasya'', email = ''vasya@example.com'', is_active = True,
            created_at = 0 \<rparr>"
    by (simp add: seed_store_def)
  from update_user_partial_frame [OF h,
      of "\<lparr> uu_username = None, uu_email = None, uu_is_active = Some False \<rparr>"] h
  show ?thesis
    by (simp add: Let_def)
qed

text \<open>
  C8. For a user id present in the store, \<^verbatim>\<open>update_user_full\<close> returns the stored user with
  \<^verbatim>\<open>username\<close> and \<^verbatim>\<open>email\<close> taken from the body and \<^verbatim>\<open>id\<close>, \<^verbatim>\<open>created_at\<close> and
  \<^verbatim>\<open>is_active\<close> kept; the store maps the id to that user and is otherwise as it was. For an
  absent id it returns the not-found error and the store as it was. The password of the
  body has no effect on the response or the store (and a stored user has no password
  field).
\<close>

theorem update_user_full_frame:
  "(map_of (fake_users_db s) uid = Some u \<longrightarrow>
      (let u' = u\<lparr> username := uc_username p, email := uc_email p \<rparr>;
           s' = snd (update_user_full s uid p)
       in fst (update_user_full s uid p) = Inr u' \<and>
          id u' = id u \<and> created_at u' = created_at u \<and> is_active u' = is_active u \<and>
          map_of (fake_users_db s') = (map_of (fake_users_db s))(uid \<mapsto> u') \<and>
          dict_keys (fake_users_db s') = dict_keys (fake_users_db s) \<and>
          fake_messages_db s' = fake_messages_db s \<and>
          user_id_counter s' = user_id_counter s \<and>
          message_id_counter s' = message_id_counter s)) \<and>
   (map_of (fake_users_db s) uid = None \<longrightarrow>
      update_user_full s uid p = (Inl NotFoundError, s)) \<and>
   update_user_full s uid (p\<lparr> uc_password := pw \<rparr>) = update_user_full s uid p"
  by (cases "map_of (fake_users_db s) uid")
    (simp_all add: update_user_full_def Let_def map_of_dict_set dict_keys_dict_set)

theorem update_user_full_frame_witness:
  "map_of (fake_users_db (seed_store 0 0)) 2 =
     Some \<lparr> id = 2, username = ''katya'', email = ''katya@example.com'', is_active = True,
            created_at = 0 \<rparr> \<and>
   fst (update_user_full (seed_store 0 0) 2
          \<lparr> uc_username = ''katerina'', uc_email = ''k@example.com'', uc_password = ''secret'' \<rparr>) =
     Inr \<lparr> id = 2, username = ''katerina'', email = ''k@example.com'', is_active = True,
           created_at = 0 \<rparr> \<and>
   map_of (fake_users_db (seed_store 0 0)) 99 = None \<and>
   update_user_full (seed_store 0 0) 99
     \<lparr> uc_username = ''katerina'', uc_email = ''k@example.com'', uc_password = ''secret'' \<rparr> =
     (Inl NotFoundError, seed_store 0 0)"
proof -
  have h: "map_of (fake_users_db (seed_store 0 0)) 2 =
     Some \<lparr> id = 2, username = ''katya'', email = ''katya@example.com'', is_active = True,
            created_at = 0 \<rparr>"
    by (simp add: seed_store_def)
  have n: "map_of (fake_users_db (seed_store 0 0)) 99 = None"
    by (simp add: seed_store_def)
  from update_user_full_frame [of "seed_store 0 0" 2
      "\<lparr> id = 2, username = ''katya'', email = ''katya@example.com'', is_active = True,
         created_at = 0 \<rparr>"
      "\<lparr> uc_username = ''katerina'', uc_email = ''k@example.com'', uc_password = ''secret'' \<rparr>"]
    update_user_full_frame [of "seed_store 0 0" 99 _
      "\<lparr> uc_username = ''katerina'', uc_email = ''k@example.com'', uc_password = ''secret'' \<rparr>"]
    h n
  show ?thesis
    by (simp add: Let_def)
qed

text \<open>
  C10. Neither update checks email uniqueness. For a user id present in the store, the
  full and the partial update succeed with every body, and for no id and no body does
  either return the conflict error. When the store holds a user \<open>a\<close> and another id \<open>b\<close>,
  updating \<open>b\<close>, fully or partially, with the email of \<open>a\<close> leaves \<open>a\<close> as it was and gives
  \<open>b\<close> the same email: two stored users share it.
\<close>

theorem update_never_conflict:
  "(dict_contains uid (fake_users_db s) \<longrightarrow>
      (\<exists>u'. fst (update_user_full s uid p) = Inr u') \<and>
      (\<exists>u'. fst (update_user_partial s uid q) = Inr u')) \<and>
   fst (update_user_full s uid p) \<noteq> Inl ConflictError \<and>
   fst (update_user_partial s uid q) \<noteq> Inl ConflictError \<and>
   (get_user_by_id s a = Inr ua \<and> dict_contains b (fake_users_db s) \<and> a \<noteq> b \<longrightarrow>
      (\<exists>ub. get_user_by_id (snd (update_user_full s b (p\<lparr> uc_email := email ua \<rparr>))) a = Inr ua \<and>
            get_user_by_id (snd (update_user_full s b (p\<lparr> uc_email := email ua \<rparr>))) b = Inr ub \<and>
            email ub = email ua) \<and>
      (\<exists>ub. get_user_by_id (snd (update_user_partial s b (q\<lparr> uu_email := Some (email ua) \<rparr>))) a
              = Inr ua \<and>
            get_user_by_id (snd (update_user_partial s b (q\<lparr> uu_email := Some (email ua) \<rparr>))) b
              = Inr ub \<and>
            email ub = email ua))"
  by (cases "map_of (fake_users_db s) uid"; cases "map_of (fake_users_db s) b";
      cases "uu_username q"; cases "uu_is_active q"; cases "uu_email q")
    (auto simp add: update_user_full_def update_user_partial_def Let_def map_of_dict_set
      dict_contains_def get_user_by_id_def split: option.splits)

theorem update_never_conflict_witness:
  "dict_contains 2 (fake_users_db (seed_store 0 0)) \<and>
   get_user_by_id (seed_store 0 0) 1 =
     Inr \<lparr> id = 1, username = ''vasya'', email = ''vasya@example.com'', is_active = True,
           created_at = 0 \<rparr> \<and>
   (\<exists>ub. get_user_by_id
           (snd (update_user_full (seed_store 0 0) 2
              \<lparr> uc_username = ''katya'', uc_email = ''vasya@example.com'',
                 uc_password = ''secret'' \<rparr>)) 1 =
           Inr \<lparr> id = 1, username = ''vasya'', email = ''vasya@example.com'', is_active = True,
                 created_at = 0 \<rparr> \<and>
         get_user_by_id
           (snd (update_user_full (seed_store 0 0) 2
              \<lparr> uc_username = ''katya'', uc_email = ''vasya@example.com'',
                 uc_password = ''secret'' \<rparr>)) 2 = Inr ub \<and>
         email ub = ''vasya@example.com'')"
proof -
  have h1: "dict_contains 2 (fake_users_db (seed_store 0 0))"
    by (simp add: dict_contains_def seed_store_def)
  have h2: "get_user_by_id (seed_store 0 0) 1 =
     Inr \<lparr> id = 1, username = ''vasya'', email = ''vasya@example.com'', is_active = True,
           created_at = 0 \<rparr>"
    by (simp add: get_user_by_id_def seed_store_def)
  from update_never_conflict [of 2 "seed_store 0 0"
      "\<lparr> uc_username = ''katya'', uc_email = ''x'', uc_password = ''secret'' \<rparr>"
      "\<lparr> uu_username = None, uu_email = None, uu_is_active = None \<rparr>" 1
      "\<lparr> id = 1, username = ''vasya'', email = ''vasya@example.com'', is_active = True,
         created_at = 0 \<rparr>" 2] h1 h2
  show ?thesis
    by simp
qed

subsection \<open>The invariant of the state and the ids assigned in a run\<close>

lemma dict_set_new: "k \<notin> set (dict_keys d) \<Longrightarrow> dict_set k v d = d @ [(k, v)]"
  by (induction d) (auto simp add: dict_keys_def)

lemma list_all_dict_set: "list_all P d \<Longrightarrow> P (k, v) \<Longrightarrow> list_all P (dict_set k v d)"
  by (induction d) auto

lemma store_inv_key_less:
  "store_inv s \<Longrightarrow> k \<in> set (dict_keys (fake_users_db s)) \<Longrightarrow> k < user_id_counter s"
  by (auto simp add: store_inv_def dict_keys_def list_all_iff)

lemma store_inv_counter_fresh:
  "store_inv s \<Longrightarrow> user_id_counter s \<notin> set (dict_keys (fake_users_db s))"
  using store_inv_key_less by blast

lemma store_inv_lookup:
  "store_inv s \<Longrightarrow> map_of (fake_users_db s) k = Some u \<Longrightarrow> id u = k \<and> k < user_id_counter s"
  by (auto simp add: store_inv_def list_all_iff dest!: map_of_SomeD)

lemma get_messages_state: "snd (get_messages s user_id_q limit_q sort_q) = s"
  using get_messages_heap_frame [of 0 "[fake_messages_db s]" 0 user_id_q limit_q sort_q]
  by (simp add: get_messages_def split_beta)

lemma store_inv_seed: "store_inv (seed_store t1 t2)"
  by (simp add: store_inv_def seed_store_def dict_keys_def)

lemma create_user_inv: "store_inv s \<Longrightarrow> store_inv (snd (create_user s u now))"
proof -
  assume inv: "store_inv s"
  have fresh: "dict_set (user_id_counter s) v (fake_users_db s) =
      fake_users_db s @ [(user_id_counter s, v)]" for v
    using store_inv_counter_fresh [OF inv] by (rule dict_set_new)
  have weaken: "list_all (\<lambda>(k, u). id u = k \<and> k < user_id_counter s + 1) (fake_users_db s)"
    using inv by (auto simp add: store_inv_def list_all_iff)
  show ?thesis
    using inv weaken store_inv_counter_fresh [OF inv]
    by (simp add: create_user_def Let_def fresh store_inv_def dict_keys_def)
qed

lemma delete_user_inv: "store_inv s \<Longrightarrow> store_inv (snd (delete_user s uid))"
  by (auto simp add: delete_user_def store_inv_def dict_del_def dict_keys_def list_all_iff
      distinct_map_filter)

lemma create_message_inv:
  "store_inv s \<Longrightarrow> store_inv (snd (create_message_for_user s uid m now))"
  by (auto simp add: create_message_for_user_def Let_def store_inv_def list_all_iff)

lemma update_user_full_inv: "store_inv s \<Longrightarrow> store_inv (snd (update_user_full s uid u))"
proof (cases "map_of (fake_users_db s) uid")
  case None
  then show "store_inv s \<Longrightarrow> ?thesis" by (simp add: update_user_full_def)
next
  case (Some v)
  assume inv: "store_inv s"
  show ?thesis
    using inv Some store_inv_lookup [OF inv Some]
    by (simp add: update_user_full_def Let_def store_inv_def dict_keys_dict_set
        list_all_dict_set)
qed

lemma update_user_partial_inv: "store_inv s \<Longrightarrow> store_inv (snd (update_user_partial s uid u))"
proof (cases "map_of (fake_users_db s) uid")
  case None
  then show "store_inv s \<Longrightarrow> ?thesis" by (simp add: update_user_partial_def)
next
  case (Some v)
  assume inv: "store_inv s"
  show ?thesis
    using inv Some store_inv_lookup [OF inv Some]
    by (cases "uu_username u"; cases "uu_email u"; cases "uu_is_active u")
      (simp_all add: update_user_partial_def Let_def store_inv_def dict_keys_dict_set
        list_all_dict_set)
qed

lemma exec_inv: "store_inv s \<Longrightarrow> store_inv (exec r s)"
  by (cases r)
    (simp_all add: create_user_inv delete_user_inv create_message_inv update_user_full_inv
      update_user_partial_inv get_messages_state)

lemma run_inv: "store_inv s \<Longrightarrow> store_inv (run s rs)"
  by (induction rs arbitrary: s) (simp_all add: exec_inv)

lemma exec_user_ids:
  assumes "store_inv s"
  shows "(new_user_id r s = [] \<and> user_id_counter (exec r s) = user_id_counter s \<and>
          set (dict_keys (fake_users_db (exec r s))) \<subseteq> set (dict_keys (fake_users_db s))) \<or>
         (new_user_id r s = [user_id_counter s] \<and>
          user_id_counter (exec r s) = user_id_counter s + 1 \<and>
          dict_keys (fake_users_db (exec r s)) =
            dict_keys (fake_users_db s) @ [user_id_counter s])"
proof (cases r)
  case (CreateUser u now)
  have "dict_set (user_id_counter s) v (fake_users_db s) =
      fake_users_db s @ [(user_id_counter s, v)]" for v
    using store_inv_counter_fresh [OF assms] by (rule dict_set_new)
  then show ?thesis
    using CreateUser by (simp add: create_user_def Let_def dict_keys_def)
next
  case (DeleteUser uid)
  then show ?thesis
    by (auto simp add: delete_user_def dict_del_def dict_keys_def)
next
  case (UpdateUserFull uid u)
  then show ?thesis
    by (cases "map_of (fake_users_db s) uid")
      (simp_all add: update_user_full_def Let_def dict_keys_dict_set)
next
  case (UpdateUserPartial uid u)
  then show ?thesis
    by (cases "map_of (fake_users_db s) uid")
      (simp_all add: update_user_partial_def Let_def dict_keys_dict_set)
next
  case (CreateMessage uid m now)
  then show ?thesis
    by (simp add: create_message_for_user_def Let_def)
qed (simp_all add: get_messages_state)

lemma exec_message_ids:
  "(new_message_id r s = [] \<and> message_id_counter (exec r s) = message_id_counter s \<and>
    map msg_id (fake_messages_db (exec r s)) = map msg_id (fake_messages_db s)) \<or>
   (new_message_id r s = [message_id_counter s] \<and>
    message_id_counter (exec r s) = message_id_counter s + 1 \<and>
    map msg_id (fake_messages_db (exec r s)) =
      map msg_id (fake_messages_db s) @ [message_id_counter s])"
proof (cases r)
  case (CreateUser u now)
  then show ?thesis
    by (simp add: create_user_def Let_def)
next
  case (DeleteUser uid)
  then show ?thesis
    by (simp add: delete_user_def)
next
  case (UpdateUserFull uid u)
  then show ?thesis
    by (cases "map_of (fake_users_db s) uid") (simp_all add: update_user_full_def Let_def)
next
  case (UpdateUserPartial uid u)
  then show ?thesis
    by (cases "map_of (fake_users_db s) uid") (simp_all add: update_user_partial_def Let_def)
next
  case (CreateMessage uid m now)
  then show ?thesis
    by (simp add: create_message_for_user_def Let_def)
qed (simp_all add: get_messages_state)

lemma run_user_ids:
  assumes "store_inv s"
  shows "sorted_wrt (<) (user_ids_assigned s rs) \<and>
         (\<forall>i \<in> set (user_ids_assigned s rs). user_id_counter s \<le> i) \<and>
         user_id_counter (run s rs) = user_id_counter s + int (length (user_ids_assigned s rs)) \<and>
         set (dict_keys (fake_users_db (run s rs))) \<subseteq>
           set (dict_keys (fake_users_db s)) \<union> set (user_ids_assigned s rs)"
  using assms
proof (induction rs arbitrary: s)
  case Nil
  then show ?case by simp
next
  case (Cons r rs)
  note ih = Cons.IH [OF exec_inv [OF Cons.prems, of r]]
  from exec_user_ids [OF Cons.prems, of r] show ?case
  proof
    assume "new_user_id r s = [] \<and> user_id_counter (exec r s) = user_id_counter s \<and>
          set (dict_keys (fake_users_db (exec r s))) \<subseteq> set (dict_keys (fake_users_db s))"
    with ih show ?thesis by auto
  next
    assume "new_user_id r s = [user_id_counter s] \<and>
          user_id_counter (exec r s) = user_id_counter s + 1 \<and>
          dict_keys (fake_users_db (exec r s)) =
            dict_keys (fake_users_db s) @ [user_id_counter s]"
    with ih show ?thesis by force
  qed
qed

lemma run_message_ids:
  "sorted_wrt (<) (message_ids_assigned s rs) \<and>
   (\<forall>i \<in> set (message_ids_assigned s rs). message_id_counter s \<le> i) \<and>
   message_id_counter (run s rs) =
     message_id_counter s + int (length (message_ids_assigned s rs)) \<and>
   map msg_id (fake_messages_db (run s rs)) =
     map msg_id (fake_messages_db s) @ message_ids_assigned s rs"
proof (induction rs arbitrary: s)
  case Nil
  then show ?case by simp
next
  case (Cons r rs)
  from exec_message_ids [of r s] show ?case
  proof
    assume "new_message_id r s = [] \<and> message_id_counter (exec r s) = message_id_counter s \<and>
      map msg_id (fake_messages_db (exec r s)) = map msg_id (fake_messages_db s)"
    with Cons.IH [of "exec r s"] show ?thesis by auto
  next
    assume "new_message_id r s = [message_id_counter s] \<and>
      message_id_counter (exec r s) = message_id_counter s + 1 \<and>
      map msg_id (fake_messages_db (exec r s)) =
        map msg_id (fake_messages_db s) @ [message_id_counter s]"
    with Cons.IH [of "exec r s"] show ?thesis by force
  qed
qed

lemma store_inv_ids: "store_inv s \<Longrightarrow> map id (dict_values (fake_users_db s)) = dict_keys (fake_users_db s)"
  by (auto simp add: store_inv_def dict_values_def dict_keys_def list_all_iff)

text \<open>
  C9. In the state reached from the seed state by any sequence of requests, deletions
  included, no two stored users have the same id and no two stored messages have the same
  id. The user ids assigned, the seed users' 1 and 2 first and then those of the run in
  the order of assignment, increase strictly, and so do the message ids assigned: a new
  entity never receives an id that was assigned before. Every id in the store is one of
  those assigned, and each counter is its initial value plus the number of ids assigned
  from it. One more request either assigns no id and leaves the counter, or assigns the
  value of the counter and adds one to it.
\<close>

theorem ids_never_reused:
  "distinct (map id (dict_values (fake_users_db (run (seed_store t1 t2) rs)))) \<and>
   distinct (map msg_id (fake_messages_db (run (seed_store t1 t2) rs))) \<and>
   sorted_wrt (<) ([1, 2] @ user_ids_assigned (seed_store t1 t2) rs) \<and>
   sorted_wrt (<) (message_ids_assigned (seed_store t1 t2) rs) \<and>
   set (map id (dict_values (fake_users_db (run (seed_store t1 t2) rs)))) \<subseteq>
     set ([1, 2] @ user_ids_assigned (seed_store t1 t2) rs) \<and>
   map msg_id (fake_messages_db (run (seed_store t1 t2) rs)) =
     message_ids_assigned (seed_store t1 t2) rs \<and>
   user_id_counter (run (seed_store t1 t2) rs) =
     3 + int (length (user_ids_assigned (seed_store t1 t2) rs)) \<and>
   message_id_counter (run (seed_store t1 t2) rs) =
     1 + int (length (message_ids_assigned (seed_store t1 t2) rs)) \<and>
   (new_user_id r (run (seed_store t1 t2) rs) = [] \<and>
      user_id_counter (exec r (run (seed_store t1 t2) rs)) =
        user_id_counter (run (seed_store t1 t2) rs) \<or>
    new_user_id r (run (seed_store t1 t2) rs) = [user_id_counter (run (seed_store t1 t2) rs)] \<and>
      user_id_counter (exec r (run (seed_store t1 t2) rs)) =
        user_id_counter (run (seed_store t1 t2) rs) + 1) \<and>
   (new_message_id r (run (seed_store t1 t2) rs) = [] \<and>
      message_id_counter (exec r (run (seed_store t1 t2) rs)) =
        message_id_counter (run (seed_store t1 t2) rs) \<or>
    new_message_id r (run (seed_store t1 t2) rs) =
        [message_id_counter (run (seed_store t1 t2) rs)] \<and>
      message_id_counter (exec r (run (seed_store t1 t2) rs)) =
        message_id_counter (run (seed_store t1 t2) rs) + 1)"
proof -
  let ?s0 = "seed_store t1 t2"
  have inv: "store_inv (run ?s0 rs)"
    by (rule run_inv [OF store_inv_seed])
  have ids: "map id (dict_values (fake_users_db (run ?s0 rs))) =
      dict_keys (fake_users_db (run ?s0 rs))"
    by (rule store_inv_ids [OF inv])
  have u: "sorted_wrt (<) (user_ids_assigned ?s0 rs) \<and>
         (\<forall>i \<in> set (user_ids_assigned ?s0 rs). 3 \<le> i) \<and>
         user_id_counter (run ?s0 rs) = 3 + int (length (user_ids_assigned ?s0 rs)) \<and>
         set (dict_keys (fake_users_db (run ?s0 rs))) \<subseteq>
           {1, 2} \<union> set (user_ids_assigned ?s0 rs)"
    using run_user_ids [OF store_inv_seed, of t1 t2 rs]
    by (simp add: seed_store_def dict_keys_def)
  have m: "sorted_wrt (<) (message_ids_assigned ?s0 rs) \<and>
      message_id_counter (run ?s0 rs) = 1 + int (length (message_ids_assigned ?s0 rs)) \<and>
      map msg_id (fake_messages_db (run ?s0 rs)) = message_ids_assigned ?s0 rs"
    using run_message_ids [of ?s0 rs] by (simp add: seed_store_def)
  have d1: "distinct (dict_keys (fake_users_db (run ?s0 rs)))"
    using inv by (simp add: store_inv_def)
  have d2: "distinct (map msg_id (fake_messages_db (run ?s0 rs)))"
    using inv by (simp add: store_inv_def)
  have s: "sorted_wrt (<) ([1, 2] @ user_ids_assigned ?s0 rs)"
    using u by (fastforce simp add: sorted_wrt_append)
  have su: "new_user_id r (run ?s0 rs) = [] \<and>
      user_id_counter (exec r (run ?s0 rs)) = user_id_counter (run ?s0 rs) \<or>
    new_user_id r (run ?s0 rs) = [user_id_counter (run ?s0 rs)] \<and>
      user_id_counter (exec r (run ?s0 rs)) = user_id_counter (run ?s0 rs) + 1"
    using exec_user_ids [OF inv, of r] by blast
  have sm: "new_message_id r (run ?s0 rs) = [] \<and>
      message_id_counter (exec r (run ?s0 rs)) = message_id_counter (run ?s0 rs) \<or>
    new_message_id r (run ?s0 rs) = [message_id_counter (run ?s0 rs)] \<and>
      message_id_counter (exec r (run ?s0 rs)) = message_id_counter (run ?s0 rs) + 1"
    using exec_message_ids [of r "run ?s0 rs"] by blast
  have main: "distinct (map id (dict_values (fake_users_db (run ?s0 rs)))) \<and>
      distinct (map msg_id (fake_messages_db (run ?s0 rs))) \<and>
      sorted_wrt (<) ([1, 2] @ user_ids_assigned ?s0 rs) \<and>
      sorted_wrt (<) (message_ids_assigned ?s0 rs) \<and>
      set (map id (dict_values (fake_users_db (run ?s0 rs)))) \<subseteq>
        set ([1, 2] @ user_ids_assigned ?s0 rs) \<and>
      map msg_id (fake_messages_db (run ?s0 rs)) = message_ids_assigned ?s0 rs \<and>
      user_id_counter (run ?s0 rs) = 3 + int (length (user_ids_assigned ?s0 rs)) \<and>
      message_id_counter (run ?s0 rs) = 1 + int (length (message_ids_assigned ?s0 rs))"
    using ids u m d1 d2 s by auto
  show ?thesis
    using main su sm by blast
qed

text \<open>After user 2 is deleted, the next user created has id 3, not 2.\<close>

lemma id_after_deletion:
  "dict_keys (fake_users_db (run (seed_store 0 0)
      [DeleteUser 2,
       CreateUser \<lparr> uc_username = ''petya'', uc_email = ''petya@example.com'',
                    uc_password = ''secret'' \<rparr> 4])) = [1, 3]"
  by (simp add: seed_store_def delete_user_def create_user_def dict_contains_def dict_del_def
      dict_values_def dict_keys_def Let_def)

end
